theory Spec2Isabelle
  imports Main "HOL-Library.Sublist"
begin

section \<open>Python string operations used by resume\_bot.py\<close>

text \<open>
  A Python \<open>str\<close> is given by its UTF-8 encoding, a list of bytes: an ASCII character is
  one byte below 128, every other character a sequence of bytes from 128 on. Splitting
  at an ASCII separator, replacing one ASCII character by another, testing a prefix and
  searching a substring give the same result on the encoding as on the characters.
\<close>

definition is_ascii :: "char \<Rightarrow> bool" where
  "is_ascii c = ((of_char c :: nat) < 128)"

definition lower_char :: "char \<Rightarrow> char" where
  "lower_char c = (let n = (of_char c :: nat) in if 65 \<le> n \<and> n \<le> 90 then char_of (n + 32) else c)"

definition upper_char :: "char \<Rightarrow> char" where
  "upper_char c = (let n = (of_char c :: nat) in if 97 \<le> n \<and> n \<le> 122 then char_of (n - 32) else c)"

text \<open>
  What the Python runtime does and the repository does not define is a parameter:
  the Unicode case mappings \<open>str.lower\<close> and \<open>str.capitalize\<close> on a string that holds a
  character beyond ASCII, and the order in which \<open>list(s)\<close> enumerates a set \<open>s\<close> (given
  here by the elements in the order of their insertion).
\<close>

record builtins =
  unicode_lower :: "string \<Rightarrow> string"
  unicode_capitalize :: "string \<Rightarrow> string"
  list_of_set :: "string list \<Rightarrow> string list"

text \<open>
  \<open>s.lower()\<close>: on a string of ASCII characters the letters \<open>A\<close> to \<open>Z\<close> are mapped to
  \<open>a\<close> to \<open>z\<close>; on any other string it is the runtime's Unicode mapping.
\<close>

definition lower :: "builtins \<Rightarrow> string \<Rightarrow> string" where
  "lower b s = (if list_all is_ascii s then map lower_char s else unicode_lower b s)"

text \<open>\<open>s.capitalize()\<close>: first character upper-cased, the rest lower-cased.\<close>

definition capitalize :: "builtins \<Rightarrow> string \<Rightarrow> string" where
  "capitalize b s =
     (if list_all is_ascii s
      then (case s of [] \<Rightarrow> [] | c # cs \<Rightarrow> upper_char c # map lower_char cs)
      else unicode_capitalize b s)"

text \<open>
  The characters \<open>str.strip()\<close> removes: the 29 code points for which \<open>str.isspace\<close>
  holds (U+0009 to U+000D, U+001C to U+0020, U+0085, U+00A0, U+1680, U+2000 to U+200A,
  U+2028, U+2029, U+202F, U+205F, U+3000), each by its UTF-8 encoding.
\<close>

definition whitespace :: "string list" where
  "whitespace =
     [[CHR 0x09], [CHR 0x0A], [CHR 0x0B], [CHR 0x0C], [CHR 0x0D],
      [CHR 0x1C], [CHR 0x1D], [CHR 0x1E], [CHR 0x1F], [CHR 0x20],
      [CHR 0xC2, CHR 0x85], [CHR 0xC2, CHR 0xA0],
      [CHR 0xE1, CHR 0x9A, CHR 0x80],
      [CHR 0xE2, CHR 0x80, CHR 0x80], [CHR 0xE2, CHR 0x80, CHR 0x81],
      [CHR 0xE2, CHR 0x80, CHR 0x82], [CHR 0xE2, CHR 0x80, CHR 0x83],
      [CHR 0xE2, CHR 0x80, CHR 0x84], [CHR 0xE2, CHR 0x80, CHR 0x85],
      [CHR 0xE2, CHR 0x80, CHR 0x86], [CHR 0xE2, CHR 0x80, CHR 0x87],
      [CHR 0xE2, CHR 0x80, CHR 0x88], [CHR 0xE2, CHR 0x80, CHR 0x89],
      [CHR 0xE2, CHR 0x80, CHR 0x8A],
      [CHR 0xE2, CHR 0x80, CHR 0xA8], [CHR 0xE2, CHR 0x80, CHR 0xA9],
      [CHR 0xE2, CHR 0x80, CHR 0xAF],
      [CHR 0xE2, CHR 0x81, CHR 0x9F],
      [CHR 0xE3, CHR 0x80, CHR 0x80]]"

text \<open>
  \<open>ws_prefix ws s\<close> is the number of bytes of the first sequence of \<open>ws\<close> that \<open>s\<close> starts
  with, and 0 when it starts with none. \<open>lstrip_with\<close> removes such sequences from the
  front for as long as there is one; its fuel is the length of the string, and every step
  removes at least one byte.
\<close>

fun ws_prefix :: "string list \<Rightarrow> string \<Rightarrow> nat" where
  "ws_prefix [] s = 0"
| "ws_prefix (w # ws) s = (if take (length w) s = w then length w else ws_prefix ws s)"

fun lstrip_fuel :: "nat \<Rightarrow> string list \<Rightarrow> string \<Rightarrow> string" where
  "lstrip_fuel 0 ws s = s"
| "lstrip_fuel (Suc n) ws s =
     (if ws_prefix ws s = 0 then s else lstrip_fuel n ws (drop (ws_prefix ws s) s))"

definition lstrip_with :: "string list \<Rightarrow> string \<Rightarrow> string" where
  "lstrip_with ws s = lstrip_fuel (length s) ws s"

text \<open>
  \<open>s.strip()\<close>: leading and trailing white space removed; the trailing white space is
  the leading white space of the reversed string, with every encoding reversed.
\<close>

definition strip :: "string \<Rightarrow> string" where
  "strip s = rev (lstrip_with (map rev whitespace) (rev (lstrip_with whitespace s)))"

text \<open>
  \<open>s.split(sep)\<close> for a one-character separator: the result is never empty, and
  \<open>''''.split(sep)\<close> is \<open>['''']\<close>.
\<close>

fun split_on :: "char \<Rightarrow> string \<Rightarrow> string list" where
  "split_on sep [] = [[]]"
| "split_on sep (c # cs) =
     (if c = sep then [] # split_on sep cs
      else (let r = split_on sep cs in (c # hd r) # tl r))"

text \<open>\<open>s.split(sep, maxsplit)\<close>: at most \<open>maxsplit\<close> cuts, the rest kept whole.\<close>

fun split_max :: "char \<Rightarrow> nat \<Rightarrow> string \<Rightarrow> string list" where
  "split_max sep 0 s = [s]"
| "split_max sep (Suc n) [] = [[]]"
| "split_max sep (Suc n) (c # cs) =
     (if c = sep then [] # split_max sep n cs
      else (let r = split_max sep (Suc n) cs in (c # hd r) # tl r))"

text \<open>\<open>sep.join(xs)\<close>.\<close>

fun join :: "string \<Rightarrow> string list \<Rightarrow> string" where
  "join sep [] = []"
| "join sep [x] = x"
| "join sep (x # y # ys) = x @ sep @ join sep (y # ys)"

text \<open>\<open>s.startswith(p)\<close>.\<close>

definition startswith :: "string \<Rightarrow> string \<Rightarrow> bool" where
  "startswith s p = (take (length p) s = p)"

text \<open>\<open>key in s\<close> on strings: \<open>key\<close> occurs as a contiguous substring of \<open>s\<close>.\<close>

fun contains :: "string \<Rightarrow> string \<Rightarrow> bool" where
  "contains [] key = (key = [])"
| "contains (c # cs) key = (startswith (c # cs) key \<or> contains cs key)"

text \<open>\<open>s.replace(a, b)\<close> for one-character \<open>a\<close> and \<open>b\<close>.\<close>

definition replace_char :: "char \<Rightarrow> char \<Rightarrow> string \<Rightarrow> string" where
  "replace_char a b s = map (\<lambda>c. if c = a then b else c) s"

section \<open>Derivation engine\<close>

subsection \<open>enhance\_skills\<close>

definition common_skills :: "string list" where
  "common_skills =
     [''Problem Solving'', ''Communication'', ''Teamwork'', ''Time Management'',
      ''Leadership'', ''Critical Thinking'', ''Adaptability'', ''Project Management'']"

text \<open>
  The body of \<open>for skill in common_skills\<close>: the membership test and the length test
  are both made against the list as it has grown so far.
\<close>

fun enhance_loop :: "string list \<Rightarrow> string list \<Rightarrow> string list" where
  "enhance_loop enhanced [] = enhanced"
| "enhance_loop enhanced (skill # rest) =
     enhance_loop
       (if skill \<notin> set enhanced \<and> length enhanced < 8 then enhanced @ [skill] else enhanced)
       rest"

definition enhance_skills :: "string list \<Rightarrow> string list" where
  "enhance_skills skills =
     (let enhanced = skills in
      if length enhanced < 8 then enhance_loop enhanced common_skills else enhanced)"

subsection \<open>enhance\_skills on a store of list objects\<close>

text \<open>
  Python lists are mutable objects reached through references. The store holds the list
  objects; a reference is an index into it. \<open>skills.copy()\<close> allocates a new object,
  \<open>enhanced.append(skill)\<close> updates the object \<open>enhanced\<close> refers to in place.
\<close>

type_synonym store = "string list list"

definition list_copy :: "store \<Rightarrow> nat \<Rightarrow> store \<times> nat" where
  "list_copy st r = (st @ [st ! r], length st)"

definition list_append :: "store \<Rightarrow> nat \<Rightarrow> string \<Rightarrow> store" where
  "list_append st r x = st[r := st ! r @ [x]]"

fun enhance_loop_ref :: "store \<Rightarrow> nat \<Rightarrow> string list \<Rightarrow> store" where
  "enhance_loop_ref st enhanced [] = st"
| "enhance_loop_ref st enhanced (skill # rest) =
     enhance_loop_ref
       (if skill \<notin> set (st ! enhanced) \<and> length (st ! enhanced) < 8
        then list_append st enhanced skill else st)
       enhanced rest"

definition enhance_skills_ref :: "store \<Rightarrow> nat \<Rightarrow> store \<times> nat" where
  "enhance_skills_ref st skills =
     (let (st1, enhanced) = list_copy st skills in
      if length (st1 ! enhanced) < 8
      then (enhance_loop_ref st1 enhanced common_skills, enhanced)
      else (st1, enhanced))"

subsection \<open>Exceptions and the session record\<close>

text \<open>
  The exceptions the handlers can meet: a missing dictionary key, an index out of range,
  and a fault raised inside a library or the file system, carrying its description.
  \<open>str_exn\<close> is Python's \<open>str(e)\<close>.
\<close>

datatype exn = KeyError string | IndexError | LibError string


definition bindE :: "exn + 'a \<Rightarrow> ('a \<Rightarrow> exn + 'b) \<Rightarrow> exn + 'b" where
  "bindE m f = (case m of Inl e \<Rightarrow> Inl e | Inr x \<Rightarrow> f x)"

text \<open>
  The FSM data of a session is a dictionary with the keys below; each key is only ever
  written with values of one type. A key that was never written is \<open>None\<close>, and reading it
  (\<open>data['key']\<close>) raises \<open>KeyError\<close>.
\<close>

record resume_data =
  name :: "string option"
  email :: "string option"
  phone :: "string option"
  education :: "string list option"
  experience :: "string list option"
  skills :: "string list option"
  projects :: "string list option"
  template :: "string option"
  format :: "string option"
  summary :: "string option"
  enhanced_skills :: "string list option"

definition empty_data :: resume_data where
  "empty_data =
     \<lparr>name = None, email = None, phone = None, education = None, experience = None,
      skills = None, projects = None, template = None, format = None, summary = None,
      enhanced_skills = None\<rparr>"

definition getitem :: "string \<Rightarrow> 'a option \<Rightarrow> exn + 'a" where
  "getitem key v = (case v of None \<Rightarrow> Inl (KeyError key) | Some x \<Rightarrow> Inr x)"


subsection \<open>generate\_summary\<close>

definition generate_summary :: "resume_data \<Rightarrow> exn + string" where
  "generate_summary resume_data =
     bindE (getitem ''name'' (name resume_data)) (\<lambda>name'.
     bindE (getitem ''skills'' (skills resume_data)) (\<lambda>all_skills.
       let skills' = take 3 all_skills in
       Inr (name' @ '' is a dedicated professional with expertise in '' @ join '', '' skills'
            @ ''. Seeking new opportunities to apply these skills in a challenging environment.'')))"

subsection \<open>get\_job\_recommendations\<close>

text \<open>The dictionary \<open>skill_to_jobs\<close>, in the order of its keys.\<close>

definition skill_to_jobs :: "(string \<times> string list) list" where
  "skill_to_jobs =
     [(''python'', [''Python Developer'', ''Software Engineer'', ''Data Scientist'', ''Backend Developer'']),
      (''javascript'', [''Frontend Developer'', ''Web Developer'', ''Full Stack Developer'', ''UI Engineer'']),
      (''java'', [''Java Developer'', ''Software Engineer'', ''Android Developer'', ''Backend Developer'']),
      (''sql'', [''Database Administrator'', ''Data Analyst'', ''Backend Developer'', ''SQL Developer'']),
      (''data analysis'', [''Data Analyst'', ''Business Analyst'', ''Data Scientist'', ''Research Analyst'']),
      (''machine learning'', [''Machine Learning Engineer'', ''Data Scientist'', ''AI Researcher'', ''ML Specialist'']),
      (''project management'', [''Project Manager'', ''Product Manager'', ''Scrum Master'', ''Program Manager'']),
      (''marketing'', [''Marketing Specialist'', ''Digital Marketer'', ''Content Strategist'', ''Marketing Manager'']),
      (''design'', [''UI/UX Designer'', ''Graphic Designer'', ''Product Designer'', ''Web Designer''])]"

definition default_jobs :: "string list" where
  "default_jobs =
     [''Project Manager'', ''Software Developer'', ''Business Analyst'', ''Data Specialist'',
      ''Marketing Coordinator'']"

text \<open>
  The Python set \<open>recommended_jobs\<close> is kept as a list without repetitions, in the order
  in which the elements were first added. The order in which \<open>list(recommended_jobs)\<close>
  gives them is the runtime's, \<open>list_of_set\<close>.
  \<open>set_update s xs\<close> is \<open>s.update(xs)\<close>.
\<close>

fun set_update :: "string list \<Rightarrow> string list \<Rightarrow> string list" where
  "set_update s [] = s"
| "set_update s (x # xs) = set_update (if x \<in> set s then s else s @ [x]) xs"

text \<open>The inner loop \<open>for key in skill_to_jobs\<close> for one lower-cased skill.\<close>

fun jobs_keys_loop :: "string \<Rightarrow> string list \<Rightarrow> (string \<times> string list) list \<Rightarrow> string list" where
  "jobs_keys_loop skill_lower recommended_jobs [] = recommended_jobs"
| "jobs_keys_loop skill_lower recommended_jobs ((key, jobs) # rest) =
     jobs_keys_loop skill_lower
       (if contains skill_lower key then set_update recommended_jobs jobs else recommended_jobs)
       rest"

text \<open>The outer loop \<open>for skill in skills\<close>.\<close>

fun jobs_skills_loop :: "builtins \<Rightarrow> string list \<Rightarrow> string list \<Rightarrow> string list" where
  "jobs_skills_loop b recommended_jobs [] = recommended_jobs"
| "jobs_skills_loop b recommended_jobs (skill # rest) =
     jobs_skills_loop b (jobs_keys_loop (lower b skill) recommended_jobs skill_to_jobs) rest"

definition get_job_recommendations :: "builtins \<Rightarrow> string list \<Rightarrow> string list" where
  "get_job_recommendations b skills' =
     (let recommended_jobs = jobs_skills_loop b [] skills' in
      if recommended_jobs = [] then default_jobs else list_of_set b recommended_jobs)"

section \<open>Document renderer\<close>

subsection \<open>Line parsers shared by the two renderers\<close>

text \<open>
  Both renderers parse each experience, education and project line with the same code;
  it is given once here. A line with too few fields yields \<open>None\<close> and nothing is
  rendered for it.
\<close>

definition exp_fields :: "string \<Rightarrow> (string \<times> string \<times> string \<times> string) option" where
  "exp_fields exp =
     (let parts = split_max CHR '','' 3 exp in
      if length parts \<ge> 3
      then Some (strip (parts ! 0), strip (parts ! 1), strip (parts ! 2),
                 if length parts > 3 then strip (parts ! 3) else [])
      else None)"

definition edu_fields :: "string \<Rightarrow> (string \<times> string \<times> string) option" where
  "edu_fields edu =
     (let parts = split_on CHR '','' edu in
      if length parts \<ge> 2
      then Some (strip (parts ! 0), strip (parts ! 1),
                 if length parts > 2 then strip (parts ! 2) else [])
      else None)"

definition project_fields :: "string \<Rightarrow> (string \<times> string) option" where
  "project_fields project =
     (let parts = split_max CHR '','' 1 project in
      if length parts \<ge> 1
      then Some (strip (parts ! 0), if length parts > 1 then strip (parts ! 1) else [])
      else None)"

subsection \<open>generate\_pdf\_resume\<close>

text \<open>
  A PDF document is the sequence of calls made on the \<open>FPDF\<close> object:
  \<open>set_font(family, style, size)\<close>, \<open>cell(w, h, txt, border, ln, align)\<close>,
  \<open>multi_cell(w, h, txt)\<close>, \<open>ln(h)\<close>.
\<close>

datatype pdf_call =
    AddPage
  | SetFont string string nat
  | Cell nat nat string nat nat string
  | MultiCell nat nat string
  | Ln nat

definition fonts :: "string \<Rightarrow> string \<times> string" where
  "fonts template' =
     (if template' = ''professional'' then (''Helvetica'', ''Helvetica'')
      else if template' = ''creative'' then (''Helvetica'', ''Helvetica'')
      else if template' = ''academic'' then (''Times'', ''Times'')
      else (''Courier'', ''Courier''))"

definition pdf_experience :: "string \<Rightarrow> string \<Rightarrow> pdf_call list" where
  "pdf_experience body_font exp =
     (case exp_fields exp of
        None \<Rightarrow> []
      | Some (position, company, duration, description) \<Rightarrow>
          [SetFont body_font ''B'' 10,
           Cell 0 5 (position @ '' - '' @ company) 0 1 [],
           SetFont body_font ''I'' 10,
           Cell 0 5 duration 0 1 [],
           SetFont body_font [] 10,
           MultiCell 0 5 description,
           Ln 3])"

definition pdf_education :: "string \<Rightarrow> string \<Rightarrow> pdf_call list" where
  "pdf_education body_font edu =
     (case edu_fields edu of
        None \<Rightarrow> []
      | Some (degree, institution, year) \<Rightarrow>
          [SetFont body_font ''B'' 10,
           Cell 0 5 degree 0 1 [],
           SetFont body_font [] 10,
           Cell 0 5 (institution @ '', '' @ year) 0 1 [],
           Ln 3])"

definition pdf_project :: "string \<Rightarrow> string \<Rightarrow> pdf_call list" where
  "pdf_project body_font project =
     (case project_fields project of
        None \<Rightarrow> []
      | Some (pname, description) \<Rightarrow>
          [SetFont body_font ''B'' 10,
           Cell 0 5 pname 0 1 [],
           SetFont body_font [] 10,
           MultiCell 0 5 description,
           Ln 3])"

text \<open>The calls of \<open>generate_pdf_resume\<close> from \<open>pdf.add_page()\<close> to the last project.\<close>

definition pdf_calls ::
  "string \<Rightarrow> string \<Rightarrow> string \<Rightarrow> string \<Rightarrow> string \<Rightarrow> string list \<Rightarrow> string list
     \<Rightarrow> string list \<Rightarrow> string list \<Rightarrow> pdf_call list" where
  "pdf_calls template' name' email' phone' summary' experience' education' enhanced' projects' =
     (let (title_font, body_font) = fonts template' in
      [AddPage,
       SetFont title_font ''B'' 16,
       Cell 0 10 name' 0 1 ''C'',
       SetFont body_font [] 10,
       Cell 0 5 (''Email: '' @ email' @ '' | Phone: '' @ phone') 0 1 ''C'',
       Ln 5,
       SetFont title_font ''B'' 12,
       Cell 0 10 ''PROFESSIONAL SUMMARY'' 0 1 [],
       SetFont body_font [] 10,
       MultiCell 0 5 summary',
       Ln 5,
       SetFont title_font ''B'' 12,
       Cell 0 10 ''WORK EXPERIENCE'' 0 1 [],
       SetFont body_font [] 10]
      @ concat (map (pdf_experience body_font) experience')
      @ [SetFont title_font ''B'' 12,
         Cell 0 10 ''EDUCATION'' 0 1 [],
         SetFont body_font [] 10]
      @ concat (map (pdf_education body_font) education')
      @ [SetFont title_font ''B'' 12,
         Cell 0 10 ''SKILLS'' 0 1 [],
         SetFont body_font [] 10,
         MultiCell 0 5 (join '', '' enhanced'),
         Ln 5]
      @ (if projects' \<noteq> []
         then [SetFont title_font ''B'' 12,
               Cell 0 10 ''PROJECTS'' 0 1 [],
               SetFont body_font [] 10]
              @ concat (map (pdf_project body_font) projects')
         else []))"

subsection \<open>generate\_docx\_resume\<close>

text \<open>
  A DOCX document is the sequence of calls made on the \<open>Document\<close> object:
  \<open>add_heading(text, level)\<close>, \<open>add_paragraph(text)\<close>, and \<open>add_paragraph()\<close> together with
  the runs then added to that paragraph by \<open>add_run\<close>, each run with its text and its
  bold and italic marks.
\<close>

datatype docx_run = Run string bool bool

datatype docx_call =
    AddHeading string nat
  | AddParagraphText string
  | AddParagraph "docx_run list"

definition docx_experience :: "string \<Rightarrow> docx_call list" where
  "docx_experience exp =
     (case exp_fields exp of
        None \<Rightarrow> []
      | Some (position, company, duration, description) \<Rightarrow>
          [AddParagraph
             [Run (position @ '' - '' @ company @ ''\<newline>'') True False,
              Run (duration @ ''\<newline>'') False True,
              Run description False False]])"

definition docx_education :: "string \<Rightarrow> docx_call list" where
  "docx_education edu =
     (case edu_fields edu of
        None \<Rightarrow> []
      | Some (degree, institution, year) \<Rightarrow>
          [AddParagraph
             [Run (degree @ ''\<newline>'') True False,
              Run (institution @ '', '' @ year) False False]])"

definition docx_project :: "string \<Rightarrow> docx_call list" where
  "docx_project project =
     (case project_fields project of
        None \<Rightarrow> []
      | Some (pname, description) \<Rightarrow>
          [AddParagraph
             [Run (pname @ ''\<newline>'') True False,
              Run description False False]])"

text \<open>The calls of \<open>generate_docx_resume\<close> from the title to the last project.\<close>

definition docx_calls ::
  "string \<Rightarrow> string \<Rightarrow> string \<Rightarrow> string \<Rightarrow> string list \<Rightarrow> string list
     \<Rightarrow> string list \<Rightarrow> string list \<Rightarrow> docx_call list" where
  "docx_calls name' email' phone' summary' experience' education' enhanced' projects' =
     [AddHeading name' 0,
      AddParagraph [Run (''Email: '' @ email' @ '' | Phone: '' @ phone') False False],
      AddHeading ''Professional Summary'' 1,
      AddParagraphText summary',
      AddHeading ''Work Experience'' 1]
     @ concat (map docx_experience experience')
     @ [AddHeading ''Education'' 1]
     @ concat (map docx_education education')
     @ [AddHeading ''Skills'' 1,
        AddParagraphText (join '', '' enhanced')]
     @ (if projects' \<noteq> []
        then [AddHeading ''Projects'' 1] @ concat (map docx_project projects')
        else [])"

subsection \<open>The renderers on the session dictionary\<close>

text \<open>
  The libraries and the file system are outside the repository. Whether a call into them
  raises is a parameter: each function gives the description of the fault, or \<open>None\<close>
  when the call returns. \<open>fpdf_fault\<close> and \<open>docx_fault\<close> stand for any fault of the
  document library while the file of the given name is built and written,
  \<open>send_fault\<close> for \<open>FSInputFile\<close> and \<open>answer_document\<close>, \<open>remove_fault\<close> for
  \<open>os.remove\<close>.
\<close>

record lib =
  py :: builtins
  fpdf_fault :: "pdf_call list \<Rightarrow> string \<Rightarrow> string option"
  docx_fault :: "docx_call list \<Rightarrow> string \<Rightarrow> string option"
  send_fault :: "string \<Rightarrow> string option"
  remove_fault :: "string \<Rightarrow> string option"

text \<open>
  A renderer returns the file name together with the document it wrote under that name.
  The dictionary reads come in the order in which the source first makes them, so a
  missing key raises the same \<open>KeyError\<close>; a fault of the document library is looked
  for once all keys have been read, which is when it shows in every state the dispatcher
  can reach, where no key is missing.
\<close>

definition generate_pdf_resume :: "lib \<Rightarrow> resume_data \<Rightarrow> exn + (string \<times> pdf_call list)" where
  "generate_pdf_resume l data =
     bindE (getitem ''template'' (template data)) (\<lambda>template'.
     bindE (getitem ''name'' (name data)) (\<lambda>name'.
     let filename = ''resume_'' @ lower (py l) (replace_char CHR '' '' CHR ''_'' name') @ ''.pdf'' in
     bindE (getitem ''email'' (email data)) (\<lambda>email'.
     bindE (getitem ''phone'' (phone data)) (\<lambda>phone'.
     bindE (getitem ''summary'' (summary data)) (\<lambda>summary'.
     bindE (getitem ''experience'' (experience data)) (\<lambda>experience'.
     bindE (getitem ''education'' (education data)) (\<lambda>education'.
     bindE (getitem ''enhanced_skills'' (enhanced_skills data)) (\<lambda>enhanced'.
     bindE (getitem ''projects'' (projects data)) (\<lambda>projects'.
     let pdf = pdf_calls template' name' email' phone' summary' experience' education'
                 enhanced' projects' in
     case fpdf_fault l pdf filename of
       Some m \<Rightarrow> Inl (LibError m)
     | None \<Rightarrow> Inr (filename, pdf))))))))))"

definition generate_docx_resume :: "lib \<Rightarrow> resume_data \<Rightarrow> exn + (string \<times> docx_call list)" where
  "generate_docx_resume l data =
     bindE (getitem ''template'' (template data)) (\<lambda>template'.
     bindE (getitem ''name'' (name data)) (\<lambda>name'.
     let filename = ''resume_'' @ lower (py l) (replace_char CHR '' '' CHR ''_'' name') @ ''.docx'' in
     bindE (getitem ''email'' (email data)) (\<lambda>email'.
     bindE (getitem ''phone'' (phone data)) (\<lambda>phone'.
     bindE (getitem ''summary'' (summary data)) (\<lambda>summary'.
     bindE (getitem ''experience'' (experience data)) (\<lambda>experience'.
     bindE (getitem ''education'' (education data)) (\<lambda>education'.
     bindE (getitem ''enhanced_skills'' (enhanced_skills data)) (\<lambda>enhanced'.
     bindE (getitem ''projects'' (projects data)) (\<lambda>projects'.
     let doc = docx_calls name' email' phone' summary' experience' education'
                 enhanced' projects' in
     case docx_fault l doc filename of
       Some m \<Rightarrow> Inl (LibError m)
     | None \<Rightarrow> Inr (filename, doc))))))))))"

section \<open>Session state machine\<close>

datatype ResumeForm =
    RF_name | RF_email | RF_phone | RF_education | RF_experience | RF_skills
  | RF_projects | RF_template | RF_format

text \<open>
  The FSM context of one chat: the current state (\<open>None\<close> when no form is open) and the
  data dictionary.
\<close>

record session =
  fsm_state :: "ResumeForm option"
  fsm_data :: resume_data

text \<open>
  What a handler does to the outside, in order: answering a callback query, sending a
  message (with the inline keyboard's buttons as pairs of text and callback data, none
  for a plain message), writing a document file, sending it with a caption, removing it,
  and logging an error.
\<close>

datatype document = PdfFile "pdf_call list" | DocxFile "docx_call list"

datatype effect =
    CallbackAnswer
  | Answer string "(string \<times> string) list"
  | WriteFile string document
  | AnswerDocument string string
  | RemoveFile string
  | LogError string

definition TEMPLATES :: "(string \<times> string) list" where
  "TEMPLATES =
     [(''professional'', ''Professional template with a clean, minimalist design''),
      (''creative'', ''Creative template with modern styling and accents''),
      (''academic'', ''Academic template focused on publications and research''),
      (''technical'', ''Technical template highlighting skills and projects'')]"

subsection \<open>Message handlers\<close>

text \<open>
  Each handler takes the session and the text of the message (a message that carries no
  text is not modelled). Non-ASCII characters of the source's message texts are given by
  their UTF-8 bytes. Sending a message is taken to succeed: the chat transport is not
  part of the repository.
\<close>

definition cmd_start :: "session \<Rightarrow> session \<times> effect list" where
  "cmd_start s =
     (s, [Answer ([CHR 0xF0, CHR 0x9F, CHR 0x91, CHR 0x8B]
            @ '' Welcome to the Resume Builder Bot! I'll help you create a professional resume.\<newline>\<newline>''
            @ ''Let's get started with your information. Type /build to begin creating your resume.'') []])"


definition process_name :: "session \<Rightarrow> string \<Rightarrow> session \<times> effect list" where
  "process_name s text' =
     (s\<lparr>fsm_data := (fsm_data s)\<lparr>name := Some text'\<rparr>, fsm_state := Some RF_email\<rparr>,
      [Answer ''Great! What's your email address?'' []])"

definition process_email :: "session \<Rightarrow> string \<Rightarrow> session \<times> effect list" where
  "process_email s text' =
     (s\<lparr>fsm_data := (fsm_data s)\<lparr>email := Some text'\<rparr>, fsm_state := Some RF_phone\<rparr>,
      [Answer ''What's your phone number?'' []])"

definition process_phone :: "session \<Rightarrow> string \<Rightarrow> session \<times> effect list" where
  "process_phone s text' =
     (s\<lparr>fsm_data := (fsm_data s)\<lparr>phone := Some text'\<rparr>, fsm_state := Some RF_education\<rparr>,
      [Answer (''Please enter your education details in this format:\<newline>\<newline>''
            @ ''Degree, Institution, Year\<newline>''
            @ ''Example: 'Bachelor of Science in Computer Science, MIT, 2020'\<newline>\<newline>''
            @ ''You can add multiple entries separated by a new line.'') []])"

definition process_education :: "session \<Rightarrow> string \<Rightarrow> session \<times> effect list" where
  "process_education s text' =
     (s\<lparr>fsm_data := (fsm_data s)\<lparr>education := Some (split_on CHR ''\<newline>'' text')\<rparr>,
        fsm_state := Some RF_experience\<rparr>,
      [Answer (''Please share your work experience in this format:\<newline>\<newline>''
            @ ''Position, Company, Duration, Description\<newline>''
            @ ''Example: 'Software Engineer, Google, 2020-2022, Developed features for Google Maps'\<newline>\<newline>''
            @ ''You can add multiple entries separated by a new line.'') []])"

definition process_experience :: "session \<Rightarrow> string \<Rightarrow> session \<times> effect list" where
  "process_experience s text' =
     (s\<lparr>fsm_data := (fsm_data s)\<lparr>experience := Some (split_on CHR ''\<newline>'' text')\<rparr>,
        fsm_state := Some RF_skills\<rparr>,
      [Answer (''What are your key skills? Please list them separated by commas.\<newline>''
            @ ''Example: 'Python, JavaScript, Data Analysis, Project Management'' @ [CHR 0x27]) []])"

definition process_skills :: "session \<Rightarrow> string \<Rightarrow> session \<times> effect list" where
  "process_skills s text' =
     (let skills' = map strip (split_on CHR '','' text') in
      (s\<lparr>fsm_data := (fsm_data s)\<lparr>skills := Some skills'\<rparr>, fsm_state := Some RF_projects\<rparr>,
       [Answer (''Please list any notable projects (optional). Format:\<newline>\<newline>''
             @ ''Project Name, Description\<newline>''
             @ ''Example: 'Personal Website, Developed a portfolio website using React'\<newline>\<newline>''
             @ ''You can add multiple entries separated by a new line or type 'skip' to continue.'') []]))"

definition process_projects :: "builtins \<Rightarrow> session \<Rightarrow> string \<Rightarrow> session \<times> effect list" where
  "process_projects b s text' =
     (let data = (if lower b text' = ''skip''
                  then (fsm_data s)\<lparr>projects := Some []\<rparr>
                  else (fsm_data s)\<lparr>projects := Some (split_on CHR ''\<newline>'' text')\<rparr>);
          builder = map (\<lambda>(template_id, description).
                           (capitalize b template_id, ''template:'' @ template_id)) TEMPLATES
      in (s\<lparr>fsm_data := data, fsm_state := Some RF_template\<rparr>,
          [Answer ''Please select a resume template:'' builder]))"

subsection \<open>Callback handlers\<close>








section \<open>Sample inputs and specification-level notions\<close>

text \<open>A record holding a name and two skills.\<close>

definition sample_data :: resume_data where
  "sample_data = empty_data\<lparr>name := Some ''Ada Lovelace'', skills := Some [''Python'', ''SQL'']\<rparr>"

text \<open>
  Following the spec's words: the union, over every skill (case-folded) and every keyword
  of the mapping that is a substring of that skill, of the associated job titles.
\<close>

definition matched_jobs :: "builtins \<Rightarrow> string list \<Rightarrow> string set" where
  "matched_jobs b skills' =
     (\<Union>skill \<in> set skills'. \<Union>(key, jobs) \<in> set skill_to_jobs.
        if contains (lower b skill) key then set jobs else {})"

text \<open>
  A runtime whose Unicode mappings change nothing and whose \<open>list(s)\<close> keeps the order
  of insertion.
\<close>

definition plain_builtins :: builtins where
  "plain_builtins = \<lparr>unicode_lower = (\<lambda>s. s), unicode_capitalize = (\<lambda>s. s), list_of_set = (\<lambda>xs. xs)\<rparr>"

text \<open>
  A string is trimmed when it neither starts nor ends with a white-space character.
\<close>

definition trimmed :: "string \<Rightarrow> bool" where
  "trimmed x = (ws_prefix whitespace x = 0 \<and> ws_prefix (map rev whitespace) (rev x) = 0)"

text \<open>A session waiting at the Skills step.\<close>

definition skills_session :: session where
  "skills_session = \<lparr>fsm_state = Some RF_skills, fsm_data = empty_data\<rparr>"

text \<open>
  A record as it stands after the Projects step, sessions waiting at the two selection
  steps, and a library that never faults.
\<close>

definition complete_data :: resume_data where
  "complete_data =
     \<lparr>name = Some ''Ada Lovelace'', email = Some ''ada@example.org'', phone = Some ''555 0100'',
      education = Some [''BS Computer Science, MIT, 2020'', ''Bad Line''],
      experience = Some [''Engineer, Analytical Engines, 1842-1843, Wrote notes, and programs''],
      skills = Some [''Python'', ''SQL''], projects = Some [],
      template = None, format = None, summary = None, enhanced_skills = None\<rparr>"



definition quiet_lib :: lib where
  "quiet_lib =
     \<lparr>py = plain_builtins, fpdf_fault = (\<lambda>pdf file. None), docx_fault = (\<lambda>doc file. None),
      send_fault = (\<lambda>file. None), remove_fault = (\<lambda>file. None)\<rparr>"





text \<open>
  The text content of a rendered document, ignoring layout: the sequence of its headings
  and body lines. In a PDF a cell printed in a font larger than the body size 10 is a
  heading (the name at size 16, the section titles at size 12); every other cell
  contributes its text line by line. In a DOCX document a heading is a heading, and a
  paragraph contributes its text (that of its runs, put together), line by line.
\<close>

datatype item = Heading string | Body string

fun pdf_items :: "nat \<Rightarrow> pdf_call list \<Rightarrow> item list" where
  "pdf_items sz [] = []"
| "pdf_items sz (AddPage # cs) = pdf_items sz cs"
| "pdf_items sz (SetFont family style size' # cs) = pdf_items size' cs"
| "pdf_items sz (Cell w h txt border ln align # cs) =
     (if sz > 10 then [Heading txt] else map Body (split_on CHR ''\<newline>'' txt)) @ pdf_items sz cs"
| "pdf_items sz (MultiCell w h txt # cs) =
     (if sz > 10 then [Heading txt] else map Body (split_on CHR ''\<newline>'' txt)) @ pdf_items sz cs"
| "pdf_items sz (Ln h # cs) = pdf_items sz cs"

fun run_text :: "docx_run \<Rightarrow> string" where
  "run_text (Run txt bold italic) = txt"

fun docx_items :: "docx_call list \<Rightarrow> item list" where
  "docx_items [] = []"
| "docx_items (AddHeading txt level # cs) = Heading txt # docx_items cs"
| "docx_items (AddParagraphText txt # cs) =
     map Body (split_on CHR ''\<newline>'' txt) @ docx_items cs"
| "docx_items (AddParagraph runs # cs) =
     map Body (split_on CHR ''\<newline>'' (concat (map run_text runs))) @ docx_items cs"

text \<open>The headings of a document in order, and its body lines in order.\<close>

fun titles :: "item list \<Rightarrow> string list" where
  "titles [] = []"
| "titles (Heading t # is) = t # titles is"
| "titles (Body t # is) = titles is"

fun bodies :: "item list \<Rightarrow> string list" where
  "bodies [] = []"
| "bodies (Heading t # is) = bodies is"
| "bodies (Body t # is) = t # bodies is"

text \<open>A completed record and the two documents rendered from it.\<close>

definition rendered_data :: resume_data where
  "rendered_data =
     complete_data\<lparr>template := Some ''professional'', format := Some ''pdf'',
       summary := Some ''Ada Lovelace is a dedicated professional.'',
       enhanced_skills := Some [''Python'', ''SQL'', ''Problem Solving'']\<rparr>"

definition sample_pdf :: "pdf_call list" where
  "sample_pdf =
     pdf_calls ''professional'' ''Ada Lovelace'' ''ada@example.org'' ''555 0100''
       ''Ada Lovelace is a dedicated professional.''
       [''Engineer, Analytical Engines, 1842-1843, Wrote notes, and programs'']
       [''BS Computer Science, MIT, 2020'', ''Bad Line'']
       [''Python'', ''SQL'', ''Problem Solving''] []"

definition sample_docx :: "docx_call list" where
  "sample_docx =
     docx_calls ''Ada Lovelace'' ''ada@example.org'' ''555 0100''
       ''Ada Lovelace is a dedicated professional.''
       [''Engineer, Analytical Engines, 1842-1843, Wrote notes, and programs'']
       [''BS Computer Science, MIT, 2020'', ''Bad Line'']
       [''Python'', ''SQL'', ''Problem Solving''] []"

text \<open>The font size in force after a sequence of PDF calls.\<close>

fun font_after :: "nat \<Rightarrow> pdf_call list \<Rightarrow> nat" where
  "font_after sz [] = sz"
| "font_after sz (SetFont family style size' # cs) = font_after size' cs"
| "font_after sz (c # cs) = font_after sz cs"

text \<open>
  The content both renderers are to be compared with: the lines of a text, the items of
  one experience, education and project entry, and the items of a whole resume, with the
  way the five section titles are written as a parameter.
\<close>

definition lines_of :: "string \<Rightarrow> item list" where
  "lines_of txt = map Body (split_on CHR ''\<newline>'' txt)"

definition exp_items :: "string \<Rightarrow> item list" where
  "exp_items exp =
     (case exp_fields exp of
        None \<Rightarrow> []
      | Some (position, company, duration, description) \<Rightarrow>
          lines_of (position @ '' - '' @ company) @ lines_of duration @ lines_of description)"

definition edu_items :: "string \<Rightarrow> item list" where
  "edu_items edu =
     (case edu_fields edu of
        None \<Rightarrow> []
      | Some (degree, institution, year) \<Rightarrow>
          lines_of degree @ lines_of (institution @ '', '' @ year))"

definition project_items :: "string \<Rightarrow> item list" where
  "project_items project =
     (case project_fields project of
        None \<Rightarrow> []
      | Some (pname, description) \<Rightarrow> lines_of pname @ lines_of description)"

definition resume_items ::
  "(string \<Rightarrow> string) \<Rightarrow> string \<Rightarrow> string \<Rightarrow> string \<Rightarrow> string \<Rightarrow> string list \<Rightarrow> string list
     \<Rightarrow> string list \<Rightarrow> string list \<Rightarrow> item list" where
  "resume_items style n e p s ex ed sk pr =
     [Heading n] @ lines_of (''Email: '' @ e @ '' | Phone: '' @ p)
     @ [Heading (style ''Professional Summary'')] @ lines_of s
     @ [Heading (style ''Work Experience'')] @ concat (map exp_items ex)
     @ [Heading (style ''Education'')] @ concat (map edu_items ed)
     @ [Heading (style ''Skills'')] @ lines_of (join '', '' sk)
     @ (if pr \<noteq> [] then [Heading (style ''Projects'')] @ concat (map project_items pr) else [])"

text \<open>A list of nine skills, longer than the cap of eight.\<close>

definition nine_skills :: "string list" where
  "nine_skills = [''a'', ''b'', ''c'', ''d'', ''e'', ''f'', ''g'', ''h'', ''i'']"

section \<open>Properties of enhance\_skills\<close>

lemma distinct_common_skills: "distinct common_skills"
  by (simp add: common_skills_def)

lemma length_common_skills: "length common_skills = 8"
  by (simp add: common_skills_def)

lemma enhance_loop_char:
  "distinct cs \<Longrightarrow>
   enhance_loop e cs = e @ take (8 - length e) (filter (\<lambda>x. x \<notin> set e) cs)"
proof (induction cs arbitrary: e)
  case Nil
  then show ?case by simp
next
  case (Cons c cs)
  from Cons.prems have d: "distinct cs" and nc: "c \<notin> set cs" by simp_all
  show ?case
  proof (cases "c \<notin> set e \<and> length e < 8")
    case True
    have f: "filter (\<lambda>x. x \<notin> set (e @ [c])) cs = filter (\<lambda>x. x \<notin> set e) cs"
      using nc by (intro filter_cong) auto
    from True obtain k where k: "8 - length e = Suc k" and k': "8 - length (e @ [c]) = k"
      by (cases "8 - length e") auto
    show ?thesis
      using True Cons.IH [OF d, of "e @ [c]"] f k k' by simp
  next
    case False
    then show ?thesis
      using Cons.IH [OF d, of e] by auto
  qed
qed

lemma enhance_skills_char:
  "enhance_skills s = s @ take (8 - length s) (filter (\<lambda>x. x \<notin> set s) common_skills)"
  by (simp add: enhance_skills_def enhance_loop_char [OF distinct_common_skills])

text \<open>
  Claim C2, as the code has it. For every input list, \<open>enhance_skills\<close> returns the input
  followed by the first \<open>8 - |skills|\<close> entries (none when the input already has eight or
  more) of the fallback list with the entries already present (exact match) left out, in
  fallback order. So its length is \<open>max |skills| (min 8 (|skills| + fallback entries not
  present))\<close>: never below \<open>|skills|\<close>, and above eight only when the input itself is; the
  input is a prefix of the result, and the appended entries are distinct and not among the
  input's.
\<close>

theorem enhance_skills_shape:
  "enhance_skills s = s @ take (8 - length s) (filter (\<lambda>x. x \<notin> set s) common_skills)
   \<and> length (enhance_skills s)
       = max (length s) (min 8 (length s + length (filter (\<lambda>x. x \<notin> set s) common_skills)))
   \<and> length s \<le> length (enhance_skills s)
   \<and> length (enhance_skills s) \<le> max 8 (length s)
   \<and> take (length s) (enhance_skills s) = s
   \<and> distinct (drop (length s) (enhance_skills s))
   \<and> set (drop (length s) (enhance_skills s)) \<inter> set s = {}"
proof -
  let ?f = "filter (\<lambda>x. x \<notin> set s) common_skills"
  have c: "enhance_skills s = s @ take (8 - length s) ?f"
    by (rule enhance_skills_char)
  have d: "distinct (take (8 - length s) ?f)"
    using distinct_common_skills by simp
  have i: "set (take (8 - length s) ?f) \<inter> set s = {}"
    using set_take_subset [of "8 - length s" ?f] by auto
  have l: "length (enhance_skills s) = max (length s) (min 8 (length s + length ?f))"
    unfolding c by (cases "length s \<le> 8") auto
  have b: "length (enhance_skills s) \<le> max 8 (length s)"
    unfolding c by (cases "length s \<le> 8") auto
  show ?thesis
    using d i l b unfolding c by simp
qed

text \<open>
  Claim C2 as stated fails: the length is not capped at eight, since a list of nine skills
  is returned whole.
\<close>

theorem enhance_skills_cap_counterexample:
  "length (enhance_skills nine_skills) = 9 \<and> \<not> length (enhance_skills nine_skills) \<le> 8
   \<and> length (enhance_skills nine_skills) \<noteq> min 8 (length nine_skills + 0)"
  by (simp add: enhance_skills_def nine_skills_def)

lemma enhance_loop_ref_char:
  "r < length st \<Longrightarrow>
   enhance_loop_ref st r cs = st[r := enhance_loop (st ! r) cs]"
proof (induction cs arbitrary: st)
  case Nil
  then show ?case by simp
next
  case (Cons c cs)
  then show ?case by (simp add: list_append_def)
qed

text \<open>
  Claim C10. For every store and every reference \<open>r\<close> to a list in it (the caller's
  skills list), \<open>enhance_skills\<close> leaves the list \<open>r\<close> refers to, and every other object of
  the store, unchanged: the result is a newly allocated object, different from \<open>r\<close>,
  holding the enhanced list.
\<close>

theorem enhance_skills_ref_frame:
  assumes "r < length st"
  shows "fst (enhance_skills_ref st r) ! r = st ! r
    \<and> take (length st) (fst (enhance_skills_ref st r)) = st
    \<and> snd (enhance_skills_ref st r) = length st
    \<and> snd (enhance_skills_ref st r) \<noteq> r
    \<and> fst (enhance_skills_ref st r) ! snd (enhance_skills_ref st r)
        = enhance_skills (st ! r)"
  using assms
  by (simp add: enhance_skills_ref_def list_copy_def enhance_skills_def Let_def
      enhance_loop_ref_char nth_append)

text \<open>Claim C10 at the store holding the one list \<open>[Python, SQL]\<close>.\<close>

theorem enhance_skills_ref_frame_witness:
  "(0::nat) < length [[''Python'', ''SQL'']]
   \<and> fst (enhance_skills_ref [[''Python'', ''SQL'']] 0) ! 0 = [''Python'', ''SQL'']
   \<and> fst (enhance_skills_ref [[''Python'', ''SQL'']] 0)
         ! snd (enhance_skills_ref [[''Python'', ''SQL'']] 0)
       = [''Python'', ''SQL'', ''Problem Solving'', ''Communication'', ''Teamwork'',
          ''Time Management'', ''Leadership'', ''Critical Thinking'']"
  using enhance_skills_ref_frame [of 0 "[[''Python'', ''SQL'']]"]
  by (auto simp add: enhance_skills_def common_skills_def)

lemma startswith_prefix: "startswith s p \<longleftrightarrow> prefix p s"
proof
  assume "startswith s p"
  then have "s = p @ drop (length p) s"
    by (metis append_take_drop_id startswith_def)
  then show "prefix p s" by (metis prefixI)
next
  assume "prefix p s"
  then show "startswith s p" by (auto simp: startswith_def prefix_def)
qed

lemma contains_sublist: "contains s key \<longleftrightarrow> sublist key s"
  by (induction s) (auto simp: startswith_prefix sublist_Cons_right)

section \<open>Properties of generate\_summary and get\_job\_recommendations\<close>

text \<open>
  Claim C7. For every record with name \<open>n\<close> and skills list \<open>s\<close>, \<open>generate_summary\<close>
  returns exactly the sentence made of \<open>n\<close>, the fixed middle part, the first up to three
  skills joined with a comma and a space, and the fixed ending; the join is spelled out
  for zero, one, two and three or more skills.
\<close>

theorem generate_summary_sentence:
  assumes "name d = Some n" and "skills d = Some s"
  shows "generate_summary d =
      Inr (n @ '' is a dedicated professional with expertise in '' @ join '', '' (take 3 s)
           @ ''. Seeking new opportunities to apply these skills in a challenging environment.'')
    \<and> join '', '' (take 3 s) =
      (case s of [] \<Rightarrow> []
       | [a] \<Rightarrow> a
       | [a, b] \<Rightarrow> a @ '', '' @ b
       | a # b # c # rest \<Rightarrow> a @ '', '' @ b @ '', '' @ c)"
  using assms
  by (simp add: generate_summary_def bindE_def getitem_def split: list.splits)

text \<open>Claim C7 at the record of Ada Lovelace with the skills Python and SQL.\<close>

theorem generate_summary_sentence_witness:
  "name sample_data = Some ''Ada Lovelace'' \<and> skills sample_data = Some [''Python'', ''SQL'']
   \<and> generate_summary sample_data =
      Inr ''Ada Lovelace is a dedicated professional with expertise in Python, SQL. Seeking new opportunities to apply these skills in a challenging environment.''"
  using generate_summary_sentence [of sample_data "''Ada Lovelace''" "[''Python'', ''SQL'']"]
  by (simp add: sample_data_def empty_data_def)

lemma set_set_update: "set (set_update s xs) = set s \<union> set xs"
  by (induction xs arbitrary: s) auto

lemma set_jobs_keys_loop:
  "set (jobs_keys_loop sl r ks) =
     set r \<union> (\<Union>(key, jobs) \<in> set ks. if contains sl key then set jobs else {})"
proof (induction sl r ks rule: jobs_keys_loop.induct)
  case (1 sl r)
  show ?case by simp
next
  case (2 sl r key jobs rest)
  show ?case
    unfolding jobs_keys_loop.simps "2.IH"
    by (cases "contains sl key") (simp_all add: set_set_update Un_assoc)
qed

lemma set_jobs_skills_loop: "set (jobs_skills_loop b r ss) = set r \<union> matched_jobs b ss"
  by (induction ss arbitrary: r) (auto simp: set_jobs_keys_loop matched_jobs_def)

lemma all_titles:
  "(\<Union>(key, jobs) \<in> set skill_to_jobs. if P key then set jobs else {})
     \<subseteq> (\<Union>(key, jobs) \<in> set skill_to_jobs. set jobs)"
  by (auto split: if_splits)

lemma software_developer_no_title:
  "''Software Developer'' \<notin> (\<Union>(key, jobs) \<in> set skill_to_jobs. set jobs)"
  by (simp add: skill_to_jobs_def)

lemma software_developer_unmatched: "''Software Developer'' \<notin> matched_jobs b ss"
proof
  assume "''Software Developer'' \<in> matched_jobs b ss"
  then obtain skill where
    "''Software Developer'' \<in> (\<Union>(key, jobs) \<in> set skill_to_jobs.
        if contains (lower b skill) key then set jobs else {})"
    unfolding matched_jobs_def by blast
  then have "''Software Developer'' \<in> (\<Union>(key, jobs) \<in> set skill_to_jobs. set jobs)"
    using all_titles [of "\<lambda>key. contains (lower b skill) key"] by blast
  then show False using software_developer_no_title by simp
qed

lemma python_sql_loop:
  "jobs_skills_loop b [] [''Python'', ''SQL''] =
     [''Python Developer'', ''Software Engineer'', ''Data Scientist'', ''Backend Developer'',
      ''Database Administrator'', ''Data Analyst'', ''SQL Developer'']"
  by code_simp

text \<open>
  Claim C9. Python's \<open>list(s)\<close> enumerates the elements of the set \<open>s\<close>; under that
  condition on the runtime, and for every Unicode lower-casing, for every skills list
  the elements of the result of \<open>get_job_recommendations\<close> are the union \<open>matched_jobs\<close>
  when it is not empty and the five default titles otherwise; the default list is returned
  exactly when the union is empty; and for the skills Python and SQL the result holds
  both Python Developer and Database Administrator.
\<close>

theorem get_job_recommendations_union:
  assumes enum: "\<And>xs. set (list_of_set b xs) = set xs"
  shows "set (get_job_recommendations b ss) =
     (if matched_jobs b ss = {} then set default_jobs else matched_jobs b ss)
   \<and> (get_job_recommendations b ss = default_jobs \<longleftrightarrow> matched_jobs b ss = {})
   \<and> length default_jobs = 5
   \<and> ''Python Developer'' \<in> set (get_job_recommendations b [''Python'', ''SQL''])
   \<and> ''Database Administrator'' \<in> set (get_job_recommendations b [''Python'', ''SQL''])"
proof -
  have s: "set (jobs_skills_loop b [] ss) = matched_jobs b ss"
    by (simp add: set_jobs_skills_loop)
  have e: "jobs_skills_loop b [] ss = [] \<longleftrightarrow> matched_jobs b ss = {}"
    using s by (metis set_empty)
  have n: "list_of_set b (jobs_skills_loop b [] ss) \<noteq> default_jobs"
  proof
    assume "list_of_set b (jobs_skills_loop b [] ss) = default_jobs"
    then have "''Software Developer'' \<in> set (list_of_set b (jobs_skills_loop b [] ss))"
      by (simp add: default_jobs_def)
    then have "''Software Developer'' \<in> matched_jobs b ss"
      unfolding enum s .
    then show False by (simp add: software_developer_unmatched)
  qed
  have a: "set (get_job_recommendations b ss) =
     (if matched_jobs b ss = {} then set default_jobs else matched_jobs b ss)"
    using s e by (simp add: get_job_recommendations_def Let_def enum)
  have c: "get_job_recommendations b ss = default_jobs \<longleftrightarrow> matched_jobs b ss = {}"
    using e n by (simp add: get_job_recommendations_def Let_def)
  have x: "set (get_job_recommendations b [''Python'', ''SQL'']) =
     set [''Python Developer'', ''Software Engineer'', ''Data Scientist'', ''Backend Developer'',
      ''Database Administrator'', ''Data Analyst'', ''SQL Developer'']"
    unfolding get_job_recommendations_def python_sql_loop Let_def
    by (simp add: enum)
  show ?thesis
    using a c unfolding x by (simp add: default_jobs_def)
qed

text \<open>
  Claim C9 at the plain runtime, for the skill Digital Marketing, which matches one
  keyword, and the skill Cooking, which matches none.
\<close>

theorem get_job_recommendations_union_witness:
  "(\<forall>xs. set (list_of_set plain_builtins xs) = set xs)
   \<and> set (get_job_recommendations plain_builtins [''Digital Marketing'']) =
       {''Marketing Specialist'', ''Digital Marketer'', ''Content Strategist'', ''Marketing Manager''}
   \<and> get_job_recommendations plain_builtins [''Cooking''] = default_jobs"
proof -
  have h: "\<And>xs. set (list_of_set plain_builtins xs) = set xs"
    by (simp add: plain_builtins_def)
  have m1: "jobs_skills_loop plain_builtins [] [''Digital Marketing''] =
     [''Marketing Specialist'', ''Digital Marketer'', ''Content Strategist'', ''Marketing Manager'']"
    by code_simp
  have m2: "jobs_skills_loop plain_builtins [] [''Cooking''] = []"
    by code_simp
  have e1: "matched_jobs plain_builtins [''Digital Marketing''] =
     {''Marketing Specialist'', ''Digital Marketer'', ''Content Strategist'', ''Marketing Manager''}"
    using set_jobs_skills_loop [of plain_builtins "[]" "[''Digital Marketing'']"]
    unfolding m1 by simp
  have e2: "matched_jobs plain_builtins [''Cooking''] = {}"
    using set_jobs_skills_loop [of plain_builtins "[]" "[''Cooking'']"]
    unfolding m2 by simp
  show ?thesis
    using get_job_recommendations_union [OF h, of "[''Digital Marketing'']"]
      get_job_recommendations_union [OF h, of "[''Cooking'']"] h
    unfolding e1 e2 by simp
qed

section \<open>Properties of the string operations\<close>

lemma ws_prefix_Nil: "ws_prefix ws [] = 0"
  by (induction ws) auto

lemma ws_prefix_le: "ws_prefix ws s \<le> length s"
proof (induction ws)
  case Nil
  show ?case by simp
next
  case (Cons w ws)
  have "take (length w) s = w \<Longrightarrow> length w \<le> length s"
    by (metis length_take min.cobounded1)
  with Cons show ?case by auto
qed

lemma ws_prefix_take:
  "ws_prefix ws s = 0 \<Longrightarrow> ws_prefix ws (take m s) = 0"
proof (induction ws)
  case Nil
  show ?case by simp
next
  case (Cons w ws)
  show ?case
  proof (cases "take (length w) s = w")
    case True
    with Cons.prems have "w = []" by simp
    then show ?thesis by simp
  next
    case False
    with Cons.prems have r: "ws_prefix ws s = 0" by simp
    show ?thesis
    proof (cases "take (length w) (take m s) = w")
      case True
      then have "length w \<le> m"
        by (metis length_take min.cobounded1 min.boundedE)
      then have "take (length w) s = w"
        using True by (simp add: min_def)
      with False show ?thesis by simp
    next
      case False
      then show ?thesis using Cons.IH [OF r] by simp
    qed
  qed
qed

lemma lstrip_fuel_drop: "\<exists>m. lstrip_fuel n ws s = drop m s"
proof (induction n arbitrary: s)
  case 0
  show ?case by (metis drop0 lstrip_fuel.simps(1))
next
  case (Suc n)
  show ?case
  proof (cases "ws_prefix ws s = 0")
    case True
    then show ?thesis by (metis drop0 lstrip_fuel.simps(2))
  next
    case False
    from Suc [of "drop (ws_prefix ws s) s"] obtain m where
      "lstrip_fuel n ws (drop (ws_prefix ws s) s) = drop m (drop (ws_prefix ws s) s)" by blast
    with False show ?thesis by (metis drop_drop lstrip_fuel.simps(2))
  qed
qed

lemma lstrip_fuel_done:
  "length s \<le> n \<Longrightarrow> ws_prefix ws (lstrip_fuel n ws s) = 0"
proof (induction n arbitrary: s)
  case 0
  then show ?case by (simp add: ws_prefix_Nil)
next
  case (Suc n)
  show ?case
  proof (cases "ws_prefix ws s = 0")
    case True
    then show ?thesis by simp
  next
    case False
    then have "length (drop (ws_prefix ws s) s) \<le> n"
      using Suc.prems by simp
    from Suc.IH [OF this] False show ?thesis by simp
  qed
qed

lemma lstrip_with_done: "ws_prefix ws (lstrip_with ws s) = 0"
  by (simp add: lstrip_with_def lstrip_fuel_done)

lemma trimmed_strip: "trimmed (strip s)"
proof -
  let ?t = "lstrip_with whitespace s"
  let ?u = "lstrip_with (map rev whitespace) (rev ?t)"
  obtain m where m: "?u = drop m (rev ?t)"
    using lstrip_fuel_drop [of "length (rev ?t)" "map rev whitespace" "rev ?t"]
    by (auto simp: lstrip_with_def)
  have "rev ?u = take (length ?t - m) ?t"
    unfolding m by (simp add: rev_drop)
  then have a: "ws_prefix whitespace (rev ?u) = 0"
    using ws_prefix_take [OF lstrip_with_done [of whitespace s]] by simp
  have b: "ws_prefix (map rev whitespace) ?u = 0"
    by (rule lstrip_with_done)
  show ?thesis
    using a b by (simp add: trimmed_def strip_def)
qed

lemma strip_Nil: "strip [] = []"
  by (simp add: strip_def lstrip_with_def)

lemma split_on_not_Nil: "split_on sep s \<noteq> []"
  by (induction s) (auto simp: Let_def)

lemma length_split_on: "length (split_on sep s) = Suc (count_list s sep)"
proof (induction s)
  case Nil
  show ?case by simp
next
  case (Cons c cs)
  then show ?case
    using split_on_not_Nil [of sep cs] by (cases "split_on sep cs") (auto simp: Let_def)
qed

lemma join_split_on: "join [sep] (split_on sep s) = s"
proof (induction s)
  case Nil
  show ?case by simp
next
  case (Cons c cs)
  obtain w ws where r: "split_on sep cs = w # ws"
    using split_on_not_Nil [of sep cs] by (cases "split_on sep cs") auto
  show ?case
  proof (cases "c = sep")
    case True
    then show ?thesis using Cons r by simp
  next
    case False
    then show ?thesis using Cons r by (cases ws) (simp_all add: Let_def)
  qed
qed

lemma split_on_no_sep: "list_all (\<lambda>seg. sep \<notin> set seg) (split_on sep s)"
proof (induction s)
  case Nil
  show ?case by simp
next
  case (Cons c cs)
  obtain w ws where r: "split_on sep cs = w # ws"
    using split_on_not_Nil [of sep cs] by (cases "split_on sep cs") auto
  show ?case using Cons r by (auto simp: Let_def)
qed

lemma list_all_trimmed_strip: "list_all trimmed (map strip xs)"
  by (induction xs) (simp_all add: trimmed_strip)

section \<open>Properties of the field parsers\<close>

text \<open>
  Claim C5, as the code has it. For every raw skills input, the Skills step stores the
  input split on commas with every segment trimmed of surrounding white space, and moves
  to the Projects step. The segments are those of the input (joined with commas they give
  it back, and none holds a comma); there is one stored entry for each segment, that is
  one more than the number of commas; every stored entry is trimmed; and an empty segment
  stays as an empty entry, since trimming the empty string gives the empty string.
\<close>

theorem process_skills_keeps_empty:
  "skills (fsm_data (fst (process_skills s t))) = Some (map strip (split_on CHR '','' t))
   \<and> fsm_state (fst (process_skills s t)) = Some RF_projects
   \<and> join '','' (split_on CHR '','' t) = t
   \<and> list_all (\<lambda>seg. CHR '','' \<notin> set seg) (split_on CHR '','' t)
   \<and> length (map strip (split_on CHR '','' t)) = Suc (count_list t CHR '','')
   \<and> list_all trimmed (map strip (split_on CHR '','' t))
   \<and> strip [] = []"
  using join_split_on [of "CHR '',''" t]
  by (simp add: process_skills_def Let_def split_on_no_sep length_split_on
      list_all_trimmed_strip strip_Nil)

text \<open>
  Claim C5 as stated fails: empty segments are not dropped, and the stored sequence
  holds the empty string.
\<close>

theorem process_skills_empty_counterexample:
  "skills (fsm_data (fst (process_skills skills_session ''Python,, SQL ,''))) =
     Some [''Python'', [], ''SQL'', []]
   \<and> [] \<in> set [''Python'', [], ''SQL'', []]"
proof -
  have "map strip (split_on CHR '','' ''Python,, SQL ,'') = [''Python'', [], ''SQL'', []]"
    by code_simp
  then show ?thesis by (simp add: process_skills_def Let_def)
qed

lemma trimmed_Nil: "trimmed []"
  by (simp add: trimmed_def ws_prefix_Nil)

lemma split_on_single: "length (split_on sep s) < 2 \<longleftrightarrow> sep \<notin> set s"
  by (simp add: length_split_on count_list_0_iff)

text \<open>
  Claim C6. For every education input the Education step stores its lines. A line yields
  no entry exactly when splitting it on commas gives fewer than two fields, that is when
  it holds no comma, and then neither renderer renders anything for it. Otherwise the
  entry is made of the first three fields only (degree, institution, and the year, empty
  when there are just two fields), each trimmed, and both renderers render exactly these
  three. The input of the spec's example yields exactly one entry, and a line of four
  fields yields an entry of its first three.
\<close>

theorem edu_fields_policy:
  "education (fsm_data (fst (process_education s t))) = Some (split_on CHR ''\<newline>'' t)
   \<and> (edu_fields line = None \<longleftrightarrow> length (split_on CHR '','' line) < 2)
   \<and> (length (split_on CHR '','' line) < 2 \<longleftrightarrow> CHR '','' \<notin> set line)
   \<and> (case edu_fields line of
         None \<Rightarrow> pdf_education body_font line = [] \<and> docx_education line = []
       | Some (degree, institution, year) \<Rightarrow>
           degree = strip (split_on CHR '','' line ! 0)
           \<and> institution = strip (split_on CHR '','' line ! 1)
           \<and> year = (if length (split_on CHR '','' line) = 2 then []
                     else strip (split_on CHR '','' line ! 2))
           \<and> trimmed degree \<and> trimmed institution \<and> trimmed year
           \<and> pdf_education body_font line =
               [SetFont body_font ''B'' 10, Cell 0 5 degree 0 1 [],
                SetFont body_font [] 10, Cell 0 5 (institution @ '', '' @ year) 0 1 [], Ln 3]
           \<and> docx_education line =
               [AddParagraph [Run (degree @ ''\<newline>'') True False,
                              Run (institution @ '', '' @ year) False False]])
   \<and> List.map_filter edu_fields (split_on CHR ''\<newline>'' ''BS Computer Science, MIT, 2020\<newline>Bad Line'')
       = [(''BS Computer Science'', ''MIT'', ''2020'')]
   \<and> edu_fields ''BS, MIT, 2020, cum laude'' = Some (''BS'', ''MIT'', ''2020'')"
proof -
  have a: "education (fsm_data (fst (process_education s t))) = Some (split_on CHR ''\<newline>'' t)"
    by (simp add: process_education_def)
  have b: "edu_fields line = None \<longleftrightarrow> length (split_on CHR '','' line) < 2"
    by (auto simp: edu_fields_def Let_def)
  have c: "length (split_on CHR '','' line) < 2 \<longleftrightarrow> CHR '','' \<notin> set line"
    by (rule split_on_single)
  have d: "case edu_fields line of
         None \<Rightarrow> pdf_education body_font line = [] \<and> docx_education line = []
       | Some (degree, institution, year) \<Rightarrow>
           degree = strip (split_on CHR '','' line ! 0)
           \<and> institution = strip (split_on CHR '','' line ! 1)
           \<and> year = (if length (split_on CHR '','' line) = 2 then []
                     else strip (split_on CHR '','' line ! 2))
           \<and> trimmed degree \<and> trimmed institution \<and> trimmed year
           \<and> pdf_education body_font line =
               [SetFont body_font ''B'' 10, Cell 0 5 degree 0 1 [],
                SetFont body_font [] 10, Cell 0 5 (institution @ '', '' @ year) 0 1 [], Ln 3]
           \<and> docx_education line =
               [AddParagraph [Run (degree @ ''\<newline>'') True False,
                              Run (institution @ '', '' @ year) False False]]"
  proof (cases "length (split_on CHR '','' line) \<ge> 2")
    case False
    then show ?thesis
      by (simp add: edu_fields_def pdf_education_def docx_education_def Let_def)
  next
    case True
    then show ?thesis
      by (auto simp: edu_fields_def pdf_education_def docx_education_def Let_def
          trimmed_strip trimmed_Nil)
  qed
  have e: "List.map_filter edu_fields (split_on CHR ''\<newline>'' ''BS Computer Science, MIT, 2020\<newline>Bad Line'')
       = [(''BS Computer Science'', ''MIT'', ''2020'')]"
    by code_simp
  have f: "edu_fields ''BS, MIT, 2020, cum laude'' = Some (''BS'', ''MIT'', ''2020'')"
    by code_simp
  show ?thesis
    using a b c d e f by blast
qed

section \<open>Properties of the callback dispatcher\<close>









section \<open>Properties of the selection steps\<close>








section \<open>Properties of the Format step\<close>



section \<open>Properties of the renderers\<close>

lemma split_on_append_sep:
  "split_on sep (a @ sep # r) = split_on sep a @ split_on sep r"
proof (induction a)
  case Nil
  show ?case by simp
next
  case (Cons c a)
  obtain w ws where r: "split_on sep a = w # ws"
    using split_on_not_Nil [of sep a] by (cases "split_on sep a") auto
  show ?case using Cons r by (simp add: Let_def)
qed

lemma lines_of_break: "lines_of (a @ CHR ''\<newline>'' # r) = lines_of a @ lines_of r"
  by (simp add: lines_of_def split_on_append_sep)

lemma pdf_items_append:
  "pdf_items sz (a @ r) = pdf_items sz a @ pdf_items (font_after sz a) r"
  by (induction sz a rule: pdf_items.induct) simp_all

lemma docx_items_append: "docx_items (a @ r) = docx_items a @ docx_items r"
  by (induction a rule: docx_items.induct) simp_all

lemma pdf_items_entries:
  assumes "\<And>x. pdf_items 10 (g x) = h x" and "\<And>x. font_after 10 (g x) = 10"
  shows "pdf_items 10 (concat (map g xs) @ r) = concat (map h xs) @ pdf_items 10 r"
  by (induction xs) (simp_all add: pdf_items_append assms)

lemma docx_items_entries:
  assumes "\<And>x. docx_items (g x) = h x"
  shows "docx_items (concat (map g xs) @ r) = concat (map h xs) @ docx_items r"
  by (induction xs) (simp_all add: docx_items_append assms)

lemma pdf_experience_items: "pdf_items 10 (pdf_experience f x) = exp_items x"
  by (simp add: pdf_experience_def exp_items_def lines_of_def split: option.splits)

lemma pdf_experience_font: "font_after 10 (pdf_experience f x) = 10"
  by (simp add: pdf_experience_def split: option.splits)

lemma pdf_education_items: "pdf_items 10 (pdf_education f x) = edu_items x"
  by (simp add: pdf_education_def edu_items_def lines_of_def split: option.splits)

lemma pdf_education_font: "font_after 10 (pdf_education f x) = 10"
  by (simp add: pdf_education_def split: option.splits)

lemma pdf_project_items: "pdf_items 10 (pdf_project f x) = project_items x"
  by (simp add: pdf_project_def project_items_def lines_of_def split: option.splits)

lemma pdf_project_font: "font_after 10 (pdf_project f x) = 10"
  by (simp add: pdf_project_def split: option.splits)

lemma docx_experience_items: "docx_items (docx_experience x) = exp_items x"
proof (cases "exp_fields x")
  case None
  then show ?thesis by (simp add: docx_experience_def exp_items_def)
next
  case (Some f)
  obtain p c d t where f: "f = (p, c, d, t)" by (cases f) auto
  have "lines_of ((p @ '' - '' @ c) @ CHR ''\<newline>'' # (d @ CHR ''\<newline>'' # t)) =
      lines_of (p @ '' - '' @ c) @ lines_of d @ lines_of t"
    by (simp only: lines_of_break)
  then show ?thesis
    using Some f by (simp add: docx_experience_def exp_items_def lines_of_def)
qed

lemma docx_education_items: "docx_items (docx_education x) = edu_items x"
  using lines_of_break
  by (simp add: docx_education_def edu_items_def lines_of_def [symmetric] split: option.splits)

lemma docx_project_items: "docx_items (docx_project x) = project_items x"
  using lines_of_break
  by (simp add: docx_project_def project_items_def lines_of_def [symmetric] split: option.splits)

lemmas pdf_exp_entries =
  pdf_items_entries [where g = "pdf_experience f" and h = exp_items,
    OF pdf_experience_items pdf_experience_font] for f

lemmas pdf_edu_entries =
  pdf_items_entries [where g = "pdf_education f" and h = edu_items,
    OF pdf_education_items pdf_education_font] for f

lemmas pdf_project_entries =
  pdf_items_entries [where g = "pdf_project f" and h = project_items and r = "[]",
    OF pdf_project_items pdf_project_font, simplified] for f

lemmas docx_exp_entries =
  docx_items_entries [where g = docx_experience and h = exp_items, OF docx_experience_items]

lemmas docx_edu_entries =
  docx_items_entries [where g = docx_education and h = edu_items, OF docx_education_items]

lemmas docx_project_entries =
  docx_items_entries [where g = docx_project and h = project_items and r = "[]",
    OF docx_project_items, simplified]

lemma upper_headings:
  "map upper_char ''Professional Summary'' = ''PROFESSIONAL SUMMARY''"
  "map upper_char ''Work Experience'' = ''WORK EXPERIENCE''"
  "map upper_char ''Education'' = ''EDUCATION''"
  "map upper_char ''Skills'' = ''SKILLS''"
  "map upper_char ''Projects'' = ''PROJECTS''"
  by code_simp+

lemma pdf_calls_items:
  "pdf_items sz (pdf_calls t n e p s ex ed sk pr) =
     resume_items (map upper_char) n e p s ex ed sk pr"
proof -
  obtain tf bf where f: "fonts t = (tf, bf)" by (cases "fonts t") auto
  show ?thesis
    unfolding pdf_calls_def resume_items_def f upper_headings
    by (simp add: pdf_exp_entries pdf_edu_entries pdf_project_entries lines_of_def)
qed

lemma docx_calls_items:
  "docx_items (docx_calls n e p s ex ed sk pr) = resume_items (\<lambda>t. t) n e p s ex ed sk pr"
  unfolding docx_calls_def resume_items_def
  by (simp add: docx_exp_entries docx_edu_entries docx_project_entries lines_of_def)

lemma titles_append: "titles (a @ r) = titles a @ titles r"
  by (induction a rule: titles.induct) simp_all

lemma titles_bodies: "titles (map Body xs) = []"
  by (induction xs) simp_all

lemma titles_lines_of: "titles (lines_of t) = []"
  by (simp add: lines_of_def titles_bodies)

lemma titles_entries:
  assumes "\<And>x. titles (h x) = []"
  shows "titles (concat (map h xs)) = []"
  by (induction xs) (simp_all add: titles_append assms)

lemma titles_exp_items: "titles (exp_items x) = []"
  by (simp add: exp_items_def titles_append titles_lines_of split: option.splits)

lemma titles_edu_items: "titles (edu_items x) = []"
  by (simp add: edu_items_def titles_append titles_lines_of split: option.splits)

lemma titles_project_items: "titles (project_items x) = []"
  by (simp add: project_items_def titles_append titles_lines_of split: option.splits)

lemma titles_resume_items:
  "titles (resume_items style n e p s ex ed sk pr) =
     n # map style ([''Professional Summary'', ''Work Experience'', ''Education'', ''Skills'']
                    @ (if pr \<noteq> [] then [''Projects''] else []))"
  by (simp add: resume_items_def titles_append titles_lines_of
      titles_entries [of exp_items, OF titles_exp_items]
      titles_entries [of edu_items, OF titles_edu_items]
      titles_entries [of project_items, OF titles_project_items])

lemma bodies_append: "bodies (a @ r) = bodies a @ bodies r"
  by (induction a rule: bodies.induct) simp_all

lemma bodies_resume_items:
  "bodies (resume_items style n e p s ex ed sk pr) =
     bodies (resume_items style' n e p s ex ed sk pr)"
  by (simp add: resume_items_def bodies_append)

lemma generate_pdf_resume_calls:
  assumes "generate_pdf_resume l d = Inr (fp, pdf)"
    and "name d = Some n" and "email d = Some e" and "phone d = Some p"
    and "summary d = Some s" and "experience d = Some ex" and "education d = Some ed"
    and "enhanced_skills d = Some sk" and "projects d = Some pr"
  shows "\<exists>t. template d = Some t \<and> pdf = pdf_calls t n e p s ex ed sk pr"
  using assms
  by (cases "template d")
     (auto simp: generate_pdf_resume_def bindE_def getitem_def Let_def split: option.splits)

lemma generate_docx_resume_calls:
  assumes "generate_docx_resume l d = Inr (fx, doc)"
    and "name d = Some n" and "email d = Some e" and "phone d = Some p"
    and "summary d = Some s" and "experience d = Some ex" and "education d = Some ed"
    and "enhanced_skills d = Some sk" and "projects d = Some pr"
  shows "doc = docx_calls n e p s ex ed sk pr"
  using assms
  by (cases "template d")
     (auto simp: generate_docx_resume_def bindE_def getitem_def Let_def split: option.splits)

text \<open>
  Claim C3, as the code has it. For every completed record that both renderers render,
  the two documents have the same content in the same order: the header (name, then
  the contact line), Professional Summary, Work Experience, Education, Skills and, when
  the projects sequence is not empty, Projects, with the same body lines under each.
  They differ in the text of the section titles, which the PDF writes in upper case
  (\<open>PROFESSIONAL SUMMARY\<close>) and the DOCX in title case (\<open>Professional Summary\<close>).
\<close>

theorem renderers_same_content:
  assumes "name d = Some n" and "email d = Some e" and "phone d = Some p"
    and "summary d = Some s" and "experience d = Some ex" and "education d = Some ed"
    and "enhanced_skills d = Some sk" and "projects d = Some pr"
    and "generate_pdf_resume l d = Inr (fp, pdf)"
    and "generate_docx_resume l d = Inr (fx, doc)"
  shows "pdf_items sz pdf = resume_items (map upper_char) n e p s ex ed sk pr
    \<and> docx_items doc = resume_items (\<lambda>t. t) n e p s ex ed sk pr
    \<and> bodies (pdf_items sz pdf) = bodies (docx_items doc)
    \<and> titles (docx_items doc) =
        n # [''Professional Summary'', ''Work Experience'', ''Education'', ''Skills'']
          @ (if pr \<noteq> [] then [''Projects''] else [])
    \<and> titles (pdf_items sz pdf) =
        n # [''PROFESSIONAL SUMMARY'', ''WORK EXPERIENCE'', ''EDUCATION'', ''SKILLS'']
          @ (if pr \<noteq> [] then [''PROJECTS''] else [])"
proof -
  obtain t where pdf: "pdf = pdf_calls t n e p s ex ed sk pr"
    using generate_pdf_resume_calls [OF assms(9) assms(1-8)] by blast
  have doc: "doc = docx_calls n e p s ex ed sk pr"
    by (rule generate_docx_resume_calls [OF assms(10) assms(1-8)])
  have a: "pdf_items sz pdf = resume_items (map upper_char) n e p s ex ed sk pr"
    unfolding pdf by (rule pdf_calls_items)
  have b: "docx_items doc = resume_items (\<lambda>t. t) n e p s ex ed sk pr"
    unfolding doc by (rule docx_calls_items)
  have c: "bodies (pdf_items sz pdf) = bodies (docx_items doc)"
    unfolding a b by (rule bodies_resume_items)
  have d: "titles (docx_items doc) =
        n # [''Professional Summary'', ''Work Experience'', ''Education'', ''Skills'']
          @ (if pr \<noteq> [] then [''Projects''] else [])"
    unfolding b titles_resume_items by simp
  have e: "titles (pdf_items sz pdf) =
        n # [''PROFESSIONAL SUMMARY'', ''WORK EXPERIENCE'', ''EDUCATION'', ''SKILLS'']
          @ (if pr \<noteq> [] then [''PROJECTS''] else [])"
  proof -
    have h1: "map (map upper_char)
        [''Professional Summary'', ''Work Experience'', ''Education'', ''Skills''] =
        [''PROFESSIONAL SUMMARY'', ''WORK EXPERIENCE'', ''EDUCATION'', ''SKILLS'']"
      by code_simp
    have h2: "map (map upper_char) [''Projects''] = [''PROJECTS'']"
      by code_simp
    have h3: "map (map upper_char) (if pr \<noteq> [] then [''Projects''] else []) =
        (if pr \<noteq> [] then [''PROJECTS''] else [])"
      using h2 by (cases "pr = []") simp_all
    show ?thesis
      unfolding a titles_resume_items map_append h1 h3 ..
  qed
  show ?thesis using a b c d e by blast
qed

lemma sample_renders:
  "generate_pdf_resume quiet_lib rendered_data = Inr (''resume_ada_lovelace.pdf'', sample_pdf)"
  "generate_docx_resume quiet_lib rendered_data = Inr (''resume_ada_lovelace.docx'', sample_docx)"
  by code_simp+

text \<open>Claim C3 at the completed record of Ada Lovelace and a library that never faults.\<close>

theorem renderers_same_content_witness:
  "generate_pdf_resume quiet_lib rendered_data = Inr (''resume_ada_lovelace.pdf'', sample_pdf)
   \<and> generate_docx_resume quiet_lib rendered_data = Inr (''resume_ada_lovelace.docx'', sample_docx)
   \<and> bodies (pdf_items 0 sample_pdf) = bodies (docx_items sample_docx)
   \<and> titles (docx_items sample_docx) =
       [''Ada Lovelace'', ''Professional Summary'', ''Work Experience'', ''Education'', ''Skills'']
   \<and> titles (pdf_items 0 sample_pdf) =
       [''Ada Lovelace'', ''PROFESSIONAL SUMMARY'', ''WORK EXPERIENCE'', ''EDUCATION'', ''SKILLS'']"
proof -
  have f: "name rendered_data = Some ''Ada Lovelace''"
    "email rendered_data = Some ''ada@example.org''"
    "phone rendered_data = Some ''555 0100''"
    "summary rendered_data = Some ''Ada Lovelace is a dedicated professional.''"
    "experience rendered_data =
       Some [''Engineer, Analytical Engines, 1842-1843, Wrote notes, and programs'']"
    "education rendered_data = Some [''BS Computer Science, MIT, 2020'', ''Bad Line'']"
    "enhanced_skills rendered_data = Some [''Python'', ''SQL'', ''Problem Solving'']"
    "projects rendered_data = Some []"
    by (simp_all add: rendered_data_def complete_data_def)
  note t = renderers_same_content [OF f sample_renders, of 0]
  have b: "bodies (pdf_items 0 sample_pdf) = bodies (docx_items sample_docx)"
    using t by blast
  have "titles (docx_items sample_docx) =
      ''Ada Lovelace'' # [''Professional Summary'', ''Work Experience'', ''Education'', ''Skills'']
        @ (if [] \<noteq> ([] :: string list) then [''Projects''] else [])"
    using t by blast
  then have d: "titles (docx_items sample_docx) =
      [''Ada Lovelace'', ''Professional Summary'', ''Work Experience'', ''Education'', ''Skills'']"
    by simp
  have "titles (pdf_items 0 sample_pdf) =
      ''Ada Lovelace'' # [''PROFESSIONAL SUMMARY'', ''WORK EXPERIENCE'', ''EDUCATION'', ''SKILLS'']
        @ (if [] \<noteq> ([] :: string list) then [''PROJECTS''] else [])"
    using t by blast
  then have e: "titles (pdf_items 0 sample_pdf) =
      [''Ada Lovelace'', ''PROFESSIONAL SUMMARY'', ''WORK EXPERIENCE'', ''EDUCATION'', ''SKILLS'']"
    by simp
  show ?thesis
    using sample_renders b d e by blast
qed

text \<open>
  Claim C3 as stated fails: the text of the two documents is not identical, since the
  PDF holds the title \<open>PROFESSIONAL SUMMARY\<close>, which the DOCX does not hold, where the
  DOCX holds \<open>Professional Summary\<close>.
\<close>

theorem renderers_text_counterexample:
  "generate_pdf_resume quiet_lib rendered_data = Inr (''resume_ada_lovelace.pdf'', sample_pdf)
   \<and> generate_docx_resume quiet_lib rendered_data = Inr (''resume_ada_lovelace.docx'', sample_docx)
   \<and> pdf_items 0 sample_pdf \<noteq> docx_items sample_docx
   \<and> Heading ''PROFESSIONAL SUMMARY'' \<in> set (pdf_items 0 sample_pdf)
   \<and> Heading ''PROFESSIONAL SUMMARY'' \<notin> set (docx_items sample_docx)
   \<and> Heading ''Professional Summary'' \<in> set (docx_items sample_docx)"
  by code_simp

section \<open>Properties of the Projects step\<close>

lemma generate_pdf_resume_fields:
  assumes "generate_pdf_resume l d = Inr (fp, pdf)"
  shows "\<exists>t n e p s ex ed sk pr.
      template d = Some t \<and> name d = Some n \<and> email d = Some e \<and> phone d = Some p
      \<and> summary d = Some s \<and> experience d = Some ex \<and> education d = Some ed
      \<and> enhanced_skills d = Some sk \<and> projects d = Some pr
      \<and> pdf = pdf_calls t n e p s ex ed sk pr"
  using assms
  by (auto simp: generate_pdf_resume_def bindE_def getitem_def Let_def split: option.splits)

lemma generate_docx_resume_fields:
  assumes "generate_docx_resume l d = Inr (fx, doc)"
  shows "\<exists>n e p s ex ed sk pr.
      name d = Some n \<and> email d = Some e \<and> phone d = Some p
      \<and> summary d = Some s \<and> experience d = Some ex \<and> education d = Some ed
      \<and> enhanced_skills d = Some sk \<and> projects d = Some pr
      \<and> doc = docx_calls n e p s ex ed sk pr"
  using assms
  by (auto simp: generate_docx_resume_def bindE_def getitem_def Let_def split: option.splits)

lemma skip_lower: "lower b ''skip'' = ''skip''"
  by code_simp

text \<open>
  Claim C8. The Projects step given the input \<open>skip\<close> (or any input whose lower-cased
  text is \<open>skip\<close>) sets the projects sequence to the empty sequence and moves to the
  Template step. For every record whose projects sequence is empty, whatever either
  renderer renders has exactly the header and the four sections Professional Summary,
  Work Experience, Education and Skills, and ends with the Skills paragraph: there is no
  Projects section. In both renderers the Projects section is a suffix of the document
  that is there exactly when the projects sequence is not empty.
\<close>

theorem skip_omits_projects:
  assumes "projects d = Some []" and "name d = Some n"
  shows "projects (fsm_data (fst (process_projects b s ''skip''))) = Some []
    \<and> fsm_state (fst (process_projects b s ''skip'')) = Some RF_template
    \<and> (lower b t = ''skip'' \<longrightarrow> projects (fsm_data (fst (process_projects b s t))) = Some [])
    \<and> (generate_pdf_resume l d = Inr (fp, pdf) \<longrightarrow>
          titles (pdf_items sz pdf) =
            [n, ''PROFESSIONAL SUMMARY'', ''WORK EXPERIENCE'', ''EDUCATION'', ''SKILLS'']
          \<and> (\<exists>sk. enhanced_skills d = Some sk \<and>
                take 2 (rev pdf) = [Ln 5, MultiCell 0 5 (join '', '' sk)]))
    \<and> (generate_docx_resume l d = Inr (fx, doc) \<longrightarrow>
          titles (docx_items doc) =
            [n, ''Professional Summary'', ''Work Experience'', ''Education'', ''Skills'']
          \<and> (\<exists>sk. enhanced_skills d = Some sk \<and>
                last doc = AddParagraphText (join '', '' sk)))
    \<and> pdf_calls tp n' e p sm ex ed sk' pr =
        pdf_calls tp n' e p sm ex ed sk' []
        @ (if pr \<noteq> []
           then [SetFont (fst (fonts tp)) ''B'' 12, Cell 0 10 ''PROJECTS'' 0 1 [],
                 SetFont (snd (fonts tp)) [] 10]
                @ concat (map (pdf_project (snd (fonts tp))) pr)
           else [])
    \<and> docx_calls n' e p sm ex ed sk' pr =
        docx_calls n' e p sm ex ed sk' []
        @ (if pr \<noteq> [] then [AddHeading ''Projects'' 1] @ concat (map docx_project pr) else [])"
proof -
  have a: "projects (fsm_data (fst (process_projects b s ''skip''))) = Some []
    \<and> fsm_state (fst (process_projects b s ''skip'')) = Some RF_template"
    by (simp add: process_projects_def Let_def skip_lower)
  have c: "lower b t = ''skip'' \<longrightarrow> projects (fsm_data (fst (process_projects b s t))) = Some []"
    by (simp add: process_projects_def Let_def)
  have p: "generate_pdf_resume l d = Inr (fp, pdf) \<longrightarrow>
          titles (pdf_items sz pdf) =
            [n, ''PROFESSIONAL SUMMARY'', ''WORK EXPERIENCE'', ''EDUCATION'', ''SKILLS'']
          \<and> (\<exists>sk. enhanced_skills d = Some sk \<and>
                take 2 (rev pdf) = [Ln 5, MultiCell 0 5 (join '', '' sk)])"
  proof
    assume g: "generate_pdf_resume l d = Inr (fp, pdf)"
    then obtain t e p s ex ed sk where
      f: "email d = Some e" "phone d = Some p" "summary d = Some s" "experience d = Some ex"
         "education d = Some ed" "enhanced_skills d = Some sk"
      and pdf: "pdf = pdf_calls t n e p s ex ed sk []"
      using generate_pdf_resume_fields [OF g] assms by auto
    have t1: "titles (pdf_items sz pdf) =
        [n, ''PROFESSIONAL SUMMARY'', ''WORK EXPERIENCE'', ''EDUCATION'', ''SKILLS'']"
      unfolding pdf pdf_calls_items titles_resume_items
      using upper_headings by simp
    obtain tf bf where fn: "fonts t = (tf, bf)" by (cases "fonts t") auto
    have t2: "take 2 (rev pdf) = [Ln 5, MultiCell 0 5 (join '', '' sk)]"
      unfolding pdf pdf_calls_def fn by simp
    show "titles (pdf_items sz pdf) =
            [n, ''PROFESSIONAL SUMMARY'', ''WORK EXPERIENCE'', ''EDUCATION'', ''SKILLS'']
          \<and> (\<exists>sk. enhanced_skills d = Some sk \<and>
                take 2 (rev pdf) = [Ln 5, MultiCell 0 5 (join '', '' sk)])"
      using t1 t2 f by blast
  qed
  have q: "generate_docx_resume l d = Inr (fx, doc) \<longrightarrow>
          titles (docx_items doc) =
            [n, ''Professional Summary'', ''Work Experience'', ''Education'', ''Skills'']
          \<and> (\<exists>sk. enhanced_skills d = Some sk \<and>
                last doc = AddParagraphText (join '', '' sk))"
  proof
    assume g: "generate_docx_resume l d = Inr (fx, doc)"
    then obtain e p s ex ed sk where
      f: "enhanced_skills d = Some sk"
      and doc: "doc = docx_calls n e p s ex ed sk []"
      using generate_docx_resume_fields [OF g] assms by auto
    have t1: "titles (docx_items doc) =
        [n, ''Professional Summary'', ''Work Experience'', ''Education'', ''Skills'']"
      unfolding doc docx_calls_items titles_resume_items by simp
    have t2: "last doc = AddParagraphText (join '', '' sk)"
      unfolding doc docx_calls_def by simp
    show "titles (docx_items doc) =
            [n, ''Professional Summary'', ''Work Experience'', ''Education'', ''Skills'']
          \<and> (\<exists>sk. enhanced_skills d = Some sk \<and>
                last doc = AddParagraphText (join '', '' sk))"
      using t1 t2 f by blast
  qed
  have u: "pdf_calls tp n' e p sm ex ed sk' pr =
        pdf_calls tp n' e p sm ex ed sk' []
        @ (if pr \<noteq> []
           then [SetFont (fst (fonts tp)) ''B'' 12, Cell 0 10 ''PROJECTS'' 0 1 [],
                 SetFont (snd (fonts tp)) [] 10]
                @ concat (map (pdf_project (snd (fonts tp))) pr)
           else [])"
    by (cases "fonts tp") (simp add: pdf_calls_def)
  have v: "docx_calls n' e p sm ex ed sk' pr =
        docx_calls n' e p sm ex ed sk' []
        @ (if pr \<noteq> [] then [AddHeading ''Projects'' 1] @ concat (map docx_project pr) else [])"
    by (simp add: docx_calls_def)
  show ?thesis
    using a c p q u v by blast
qed

text \<open>
  Claim C8 at the completed record of Ada Lovelace, whose projects sequence is empty, and
  at the inputs \<open>skip\<close> and \<open>SKIP\<close>.
\<close>

theorem skip_omits_projects_witness:
  "projects rendered_data = Some [] \<and> name rendered_data = Some ''Ada Lovelace''
   \<and> projects (fsm_data (fst (process_projects plain_builtins skills_session ''skip''))) = Some []
   \<and> lower plain_builtins ''SKIP'' = ''skip''
   \<and> projects (fsm_data (fst (process_projects plain_builtins skills_session ''SKIP''))) = Some []
   \<and> generate_pdf_resume quiet_lib rendered_data = Inr (''resume_ada_lovelace.pdf'', sample_pdf)
   \<and> titles (pdf_items 0 sample_pdf) =
       [''Ada Lovelace'', ''PROFESSIONAL SUMMARY'', ''WORK EXPERIENCE'', ''EDUCATION'', ''SKILLS'']
   \<and> generate_docx_resume quiet_lib rendered_data = Inr (''resume_ada_lovelace.docx'', sample_docx)
   \<and> titles (docx_items sample_docx) =
       [''Ada Lovelace'', ''Professional Summary'', ''Work Experience'', ''Education'', ''Skills'']"
proof -
  have f: "projects rendered_data = Some []" "name rendered_data = Some ''Ada Lovelace''"
    by (simp_all add: rendered_data_def complete_data_def)
  have u: "lower plain_builtins ''SKIP'' = ''skip''"
    by code_simp
  note t = skip_omits_projects [OF f, where l = quiet_lib and b = plain_builtins
      and s = skills_session and t = "''SKIP''" and sz = 0
      and fp = "''resume_ada_lovelace.pdf''" and pdf = sample_pdf
      and fx = "''resume_ada_lovelace.docx''" and doc = sample_docx]
  have a: "projects (fsm_data (fst (process_projects plain_builtins skills_session ''skip''))) = Some []"
    using t by blast
  have b: "projects (fsm_data (fst (process_projects plain_builtins skills_session ''SKIP''))) = Some []"
    using t u by blast
  have c: "titles (pdf_items 0 sample_pdf) =
       [''Ada Lovelace'', ''PROFESSIONAL SUMMARY'', ''WORK EXPERIENCE'', ''EDUCATION'', ''SKILLS'']"
    using t sample_renders(1) by blast
  have d: "titles (docx_items sample_docx) =
       [''Ada Lovelace'', ''Professional Summary'', ''Work Experience'', ''Education'', ''Skills'']"
    using t sample_renders(2) by blast
  show ?thesis
    using f u a b c d sample_renders by blast
qed

end
